theory Spec2Isabelle
  imports Main
begin

section \<open>The Optional container (pkg/optional/optional.go)\<close>

text \<open>
  \<^verbatim>\<open>type Optional[T any] struct { value T; hasValue bool }\<close>

  The type parameter \<open>T\<close> is the type variable \<open>'a\<close>. Go's zero value of \<open>T\<close>
  (written \<^verbatim>\<open>*new(T)\<close> in the source, and what a composite literal leaves in a
  field it does not mention) is the parameter \<open>z\<close> of the operations that need it.
\<close>

record 'a Optional =
  "value" :: 'a
  hasValue :: bool

definition New :: "'a \<Rightarrow> 'a Optional" where
  "New v = \<lparr>value = v, hasValue = True\<rparr>"

text \<open>
  \<open>FromPtr\<close> takes a \<^verbatim>\<open>*T\<close> and only reads through it, so the argument is given by
  what it designates: \<open>None\<close> is the nil pointer, \<open>Some v\<close> a pointer to a variable that
  holds \<open>v\<close> at the time of the call.
\<close>

definition FromPtr :: "'a \<Rightarrow> 'a option \<Rightarrow> 'a Optional" where
  "FromPtr z p =
     (case p of
        None \<Rightarrow> \<lparr>value = z, hasValue = False\<rparr>
      | Some v \<Rightarrow> \<lparr>value = v, hasValue = True\<rparr>)"

text \<open>
  \<^verbatim>\<open>Optional[T]{}\<close>: every field has its zero value, which is also what a declaration
  \<^verbatim>\<open>var o Optional[T]\<close> yields.
\<close>

definition Empty :: "'a \<Rightarrow> 'a Optional" where
  "Empty z = \<lparr>value = z, hasValue = False\<rparr>"

definition IsEmpty :: "'a Optional \<Rightarrow> bool" where
  "IsEmpty c = (\<not> hasValue c)"

definition Get :: "'a Optional \<Rightarrow> 'a \<times> bool" where
  "Get c = (value c, hasValue c)"

definition Or :: "'a Optional \<Rightarrow> 'a \<Rightarrow> 'a" where
  "Or c d = (if \<not> hasValue c then d else value c)"

text \<open>
  \<open>Set\<close> and \<open>Unset\<close> have a pointer receiver and assign to its fields without
  comparing it with nil: the receiver designates a container, which is passed in, and
  the updated container is returned.
\<close>

definition Set :: "'a \<Rightarrow> 'a Optional \<Rightarrow> 'a Optional" where
  "Set v c = (c\<lparr>hasValue := True\<rparr>)\<lparr>value := v\<rparr>"

definition Unset :: "'a \<Rightarrow> 'a Optional \<Rightarrow> 'a Optional" where
  "Unset z c = (c\<lparr>hasValue := False\<rparr>)\<lparr>value := z\<rparr>"

subsection \<open>Variables of type T that are reached through a pointer\<close>

text \<open>
  A \<^verbatim>\<open>*T\<close> that is not nil is the address of a variable of type \<open>T\<close>. The variables
  whose address has been taken form a list, and an address is an index into it.
  \<^verbatim>\<open>v := o.value; return &v\<close> declares a new variable, so it extends the list by one
  cell. \<open>load\<close> is \<^verbatim>\<open>*p\<close> and \<open>store\<close> is \<^verbatim>\<open>*p = x\<close>; both are defined on
  allocated addresses only.
\<close>

type_synonym addr = nat

type_synonym 'a heap = "'a list"

definition load :: "'a heap \<Rightarrow> addr \<Rightarrow> 'a option" where
  "load h p = (if p < length h then Some (h ! p) else None)"

definition store :: "'a heap \<Rightarrow> addr \<Rightarrow> 'a \<Rightarrow> 'a heap option" where
  "store h p x = (if p < length h then Some (h[p := x]) else None)"

definition ToPtr :: "'a Optional \<Rightarrow> 'a heap \<Rightarrow> addr option \<times> 'a heap" where
  "ToPtr c h =
     (if \<not> hasValue c then (None, h)
      else (let v = value c in (Some (length h), h @ [v])))"

subsection \<open>JSON\<close>

text \<open>
  \<^verbatim>\<open>json.Marshal\<close> and \<^verbatim>\<open>json.Unmarshal\<close> at type \<open>T\<close> belong to the standard library;
  they are the parameters \<open>marshalT\<close> and \<open>unmarshalT\<close>. Both return either an error
  (\<open>Inl\<close>) or a result (\<open>Inr\<close>); the type \<open>'e\<close> stands for Go's \<^verbatim>\<open>error\<close> values. A byte
  slice is a \<open>string\<close>, whose characters are bytes.
\<close>

definition MarshalJSON :: "('a \<Rightarrow> 'e + string) \<Rightarrow> 'a Optional \<Rightarrow> 'e + string" where
  "MarshalJSON marshalT c =
     (if \<not> hasValue c then Inr ''null'' else marshalT (value c))"

text \<open>
  The loop of \<open>UnmarshalJSON\<close> that appends to \<open>trimmed\<close> every byte that is not a
  space, a line feed, a carriage return or a tab.
\<close>

primrec trim_loop :: "string \<Rightarrow> string \<Rightarrow> string" where
  "trim_loop trimmed [] = trimmed"
| "trim_loop trimmed (b # bs) =
     trim_loop
       (if b \<noteq> CHR '' '' \<and> b \<noteq> CHR 0x0A \<and> b \<noteq> CHR 0x0D \<and> b \<noteq> CHR 0x09
        then trimmed @ [b] else trimmed)
       bs"

text \<open>
  The receiver of \<open>UnmarshalJSON\<close> is a \<^verbatim>\<open>*Optional[T]\<close> that the method compares
  with nil: \<open>None\<close> is the nil receiver and \<open>Some c\<close> a receiver that designates a
  container holding \<open>c\<close>. The result is the receiver's container after the call, and
  the returned error (\<open>None\<close> for \<^verbatim>\<open>nil\<close>).
\<close>

definition UnmarshalJSON ::
  "(string \<Rightarrow> 'e + 'a) \<Rightarrow> 'a \<Rightarrow> 'a Optional option \<Rightarrow> string
     \<Rightarrow> 'a Optional option \<times> 'e option" where
  "UnmarshalJSON unmarshalT z rcv data =
     (case rcv of
        None \<Rightarrow> (None, None)
      | Some c \<Rightarrow>
          if length data = 4 \<and> data = ''null'' then (Some (Unset z c), None)
          else
            let trimmed = trim_loop [] data in
            if trimmed = ''null'' then (Some (Unset z c), None)
            else
              (case unmarshalT data of
                 Inl err \<Rightarrow> (Some c, Some err)
               | Inr v \<Rightarrow> (Some (Set v c), None)))"

subsection \<open>The data model's invariant\<close>

text \<open>An absent container holds the zero value of \<open>T\<close> in its slot.\<close>

definition absent_is_zero :: "'a \<Rightarrow> 'a Optional \<Rightarrow> bool" where
  "absent_is_zero z c = (\<not> hasValue c \<longrightarrow> value c = z)"

subsection \<open>The absence token as the specification words it\<close>

text \<open>
  The specification's wording of the input that stands for absence: the token
  \<open>null\<close> with leading and trailing whitespace, where whitespace is a space, a tab, a
  carriage return or a line feed. This definition follows the specification, not the
  source, and is what \<open>UnmarshalJSON\<close> is compared with.
\<close>

definition spec_whitespace :: "char \<Rightarrow> bool" where
  "spec_whitespace b = (b = CHR '' '' \<or> b = CHR 0x09 \<or> b = CHR 0x0D \<or> b = CHR 0x0A)"

definition spec_strip_around :: "string \<Rightarrow> string" where
  "spec_strip_around x =
     rev (dropWhile spec_whitespace (rev (dropWhile spec_whitespace x)))"

definition spec_absence_token :: "string \<Rightarrow> bool" where
  "spec_absence_token x = (spec_strip_around x = ''null'')"

subsection \<open>Containers that the package can build\<close>

text \<open>
  The fields of \<open>Optional\<close> are not exported, so a program obtains a container from
  \<open>New\<close>, \<open>FromPtr\<close>, \<open>Empty\<close> (or the zero value, which is the same container), and
  changes it with \<open>Set\<close>, \<open>Unset\<close> and \<open>UnmarshalJSON\<close> only.
\<close>

inductive built :: "(string \<Rightarrow> 'e + 'a) \<Rightarrow> 'a \<Rightarrow> 'a Optional \<Rightarrow> bool"
  for unmarshalT :: "string \<Rightarrow> 'e + 'a" and z :: 'a where
  built_New: "built unmarshalT z (New v)"
| built_Empty: "built unmarshalT z (Empty z)"
| built_FromPtr: "built unmarshalT z (FromPtr z p)"
| built_Set: "built unmarshalT z c \<Longrightarrow> built unmarshalT z (Set v c)"
| built_Unset: "built unmarshalT z c \<Longrightarrow> built unmarshalT z (Unset z c)"
| built_UnmarshalJSON:
    "built unmarshalT z c \<Longrightarrow> UnmarshalJSON unmarshalT z (Some c) data = (Some c', e)
       \<Longrightarrow> built unmarshalT z c'"

section \<open>Auxiliary facts\<close>

lemma trim_loop_filter:
  "trim_loop acc bs = acc @ filter (\<lambda>b. \<not> spec_whitespace b) bs"
  by (induction bs arbitrary: acc) (auto simp: spec_whitespace_def)

lemma filter_dropWhile_same:
  "filter (\<lambda>b. \<not> P b) (dropWhile P xs) = filter (\<lambda>b. \<not> P b) xs"
  by (induction xs) auto

lemma filter_strip_around:
  "filter (\<lambda>b. \<not> spec_whitespace b) (spec_strip_around x)
     = filter (\<lambda>b. \<not> spec_whitespace b) x"
proof -
  let ?f = "filter (\<lambda>b. \<not> spec_whitespace b)"
  have "?f (spec_strip_around x) = rev (?f (dropWhile spec_whitespace (rev (dropWhile spec_whitespace x))))"
    by (simp add: spec_strip_around_def rev_filter)
  also have "\<dots> = rev (?f (rev (dropWhile spec_whitespace x)))"
    by (simp only: filter_dropWhile_same)
  also have "\<dots> = ?f (dropWhile spec_whitespace x)"
    by (simp add: rev_filter)
  also have "\<dots> = ?f x"
    by (simp only: filter_dropWhile_same)
  finally show ?thesis .
qed

lemma spec_absence_token_trim_loop:
  assumes "spec_absence_token x"
  shows "trim_loop [] x = ''null''"
proof -
  have "trim_loop [] x = filter (\<lambda>b. \<not> spec_whitespace b) (spec_strip_around x)"
    by (simp add: trim_loop_filter filter_strip_around)
  also have "\<dots> = filter (\<lambda>b. \<not> spec_whitespace b) ''null''"
    using assms by (simp add: spec_absence_token_def)
  also have "\<dots> = ''null''"
    by (simp add: spec_whitespace_def)
  finally show ?thesis .
qed

text \<open>The fast path is subsumed by the comparison of \<open>trimmed\<close>.\<close>

lemma UnmarshalJSON_Some:
  "UnmarshalJSON unmarshalT z (Some c) data =
     (if trim_loop [] data = ''null'' then (Some (Unset z c), None)
      else (case unmarshalT data of
              Inl err \<Rightarrow> (Some c, Some err)
            | Inr v \<Rightarrow> (Some (Set v c), None)))"
proof (cases "data = ''null''")
  case True
  then show ?thesis by (simp add: UnmarshalJSON_def)
next
  case False
  then show ?thesis by (simp add: UnmarshalJSON_def Let_def)
qed

lemma UnmarshalJSON_absent_is_zero:
  assumes "absent_is_zero z c" and "UnmarshalJSON unmarshalT z (Some c) data = (Some c', e)"
  shows "absent_is_zero z c'"
  using assms
  by (auto simp: UnmarshalJSON_Some absent_is_zero_def Set_def Unset_def
           split: if_splits sum.splits)

lemma built_absent_is_zero:
  "built unmarshalT z c \<Longrightarrow> absent_is_zero z c"
proof (induction rule: built.induct)
  case (built_UnmarshalJSON c data c' e)
  then show ?case by (blast intro: UnmarshalJSON_absent_is_zero)
qed (simp_all add: absent_is_zero_def New_def Empty_def FromPtr_def Set_def Unset_def
       split: option.splits)

section \<open>Properties\<close>

text \<open>
  C1: \<open>UnmarshalJSON\<close> takes as absence more than the token \<open>null\<close> with
  whitespace around it. Its loop drops every whitespace byte, also the ones between the
  letters, so the five bytes \<open>nu ll\<close>, which are not the token with leading or trailing
  whitespace, unset the container and return no error; the decoder of \<open>T\<close> is never
  asked, whatever it is. The doc comment of the method says that JSON null unsets
  the optional and anything else is parsed into \<open>T\<close>, and the comment above the fast
  path speaks of surrounding whitespace.
\<close>

theorem UnmarshalJSON_interior_whitespace:
  "\<not> spec_absence_token ''nu ll'' \<and>
   UnmarshalJSON unmarshalT z (Some c) ''nu ll'' = (Some (Unset z c), None)"
  by (simp add: spec_absence_token_def spec_strip_around_def spec_whitespace_def
        UnmarshalJSON_def)



text \<open>
  C3: the invariant \<open>absent_is_zero\<close> holds of what \<open>New\<close>, \<open>Empty\<close> and \<open>FromPtr\<close>
  return and of the zero value of the struct, holds after \<open>Set\<close> and after
  \<open>Unset\<close> whatever the container was before, and is kept by \<open>UnmarshalJSON\<close> on
  every input, on its error path as well.
\<close>

theorem constructors_and_mutators_keep_absent_is_zero:
  "absent_is_zero z (New v) \<and>
   absent_is_zero z (Empty z) \<and>
   absent_is_zero z \<lparr>value = z, hasValue = False\<rparr> \<and>
   absent_is_zero z (FromPtr z p) \<and>
   absent_is_zero z (Set v c) \<and>
   absent_is_zero z (Unset z c) \<and>
   (absent_is_zero z c \<longrightarrow>
      (\<exists>c'. fst (UnmarshalJSON unmarshalT z (Some c) data) = Some c' \<and> absent_is_zero z c'))"
proof -
  have "\<exists>c'. fst (UnmarshalJSON unmarshalT z (Some c) data) = Some c' \<and> absent_is_zero z c'"
    if "absent_is_zero z c"
  proof -
    have "\<exists>c' e. UnmarshalJSON unmarshalT z (Some c) data = (Some c', e)"
      by (simp add: UnmarshalJSON_Some split: sum.splits)
    then obtain c' e where run: "UnmarshalJSON unmarshalT z (Some c) data = (Some c', e)"
      by blast
    with that have "absent_is_zero z c'" by (rule UnmarshalJSON_absent_is_zero)
    with run show ?thesis by simp
  qed
  then show ?thesis
    by (simp add: absent_is_zero_def New_def Empty_def FromPtr_def Set_def Unset_def
          split: option.splits)
qed

theorem constructors_and_mutators_keep_absent_is_zero_witness:
  "absent_is_zero (0::int) (Unset 0 (New 5)) \<and>
   fst (UnmarshalJSON (Inl :: string \<Rightarrow> string + int) 0 (Some (Unset 0 (New 5))) '' null '')
     = Some (Empty 0) \<and>
   absent_is_zero (0::int) (Empty 0)"
  using constructors_and_mutators_keep_absent_is_zero
    [of "0::int" 5 None "New 5" "Inl :: string \<Rightarrow> string + int" "'' null ''"]
    constructors_and_mutators_keep_absent_is_zero
    [of "0::int" 5 None "Unset 0 (New 5)" "Inl :: string \<Rightarrow> string + int" "'' null ''"]
  by (simp add: absent_is_zero_def UnmarshalJSON_def Unset_def New_def Empty_def)

text \<open>
  C4, amended: on a receiver that is not nil, and for an input in which no whitespace
  byte stands between the letters of the token, \<open>UnmarshalJSON\<close> returns an error
  exactly when the input is not the token \<open>null\<close> with whitespace around it and the
  decoder of \<open>T\<close> rejects it, and the error returned is the decoder's own, as it is;
  on a nil receiver \<open>UnmarshalJSON\<close> returns no error on any input. The other
  operations (\<open>New\<close>, \<open>FromPtr\<close>, \<open>Empty\<close>, \<open>IsEmpty\<close>, \<open>Get\<close>, \<open>Or\<close>, \<open>Set\<close>,
  \<open>Unset\<close>, \<open>ToPtr\<close>) return no error value in the source, and their types above
  have none.
\<close>

theorem UnmarshalJSON_error_iff:
  assumes "trim_loop [] x = ''null'' \<longrightarrow> spec_absence_token x"
  shows "((snd (UnmarshalJSON unmarshalT z (Some c) x) = Some e)
            = (\<not> spec_absence_token x \<and> unmarshalT x = Inl e)) \<and>
         snd (UnmarshalJSON unmarshalT z None x) = None"
proof (cases "trim_loop [] x = ''null''")
  case True
  with assms have "spec_absence_token x" by simp
  with True show ?thesis by (simp add: UnmarshalJSON_Some UnmarshalJSON_def)
next
  case False
  then have "\<not> spec_absence_token x"
    using spec_absence_token_trim_loop by blast
  with False show ?thesis
    by (auto simp: UnmarshalJSON_Some UnmarshalJSON_def split: sum.splits)
qed

text \<open>
  Without the restriction to a receiver that is not nil the equivalence fails: the
  decoder rejects the input \<open>tru\<close>, which is not the absence token, and still no
  error comes back from a nil receiver.
\<close>

theorem nil_receiver_swallows_decode_error:
  "isl ((Inl :: string \<Rightarrow> string + int) ''tru'') \<and>
   \<not> spec_absence_token ''tru'' \<and>
   snd (UnmarshalJSON (Inl :: string \<Rightarrow> string + int) 0 None ''tru'') = None"
  by (simp add: spec_absence_token_def spec_strip_around_def spec_whitespace_def
        UnmarshalJSON_def)

theorem UnmarshalJSON_error_iff_witness:
  "snd (UnmarshalJSON (Inl :: string \<Rightarrow> string + int) 0 (Some (New 7)) ''tru'') = Some ''tru'' \<and>
   \<not> spec_absence_token ''tru'' \<and>
   snd (UnmarshalJSON (Inl :: string \<Rightarrow> string + int) 0 (Some (New 7)) (CHR 0x0A # ''null'' @ [CHR 0x09])) = None \<and>
   spec_absence_token (CHR 0x0A # ''null'' @ [CHR 0x09])"
proof -
  have h1: "trim_loop [] ''tru'' = ''null'' \<longrightarrow> spec_absence_token ''tru''"
    by simp
  have h2: "trim_loop [] (CHR 0x0A # ''null'' @ [CHR 0x09]) = ''null''
              \<longrightarrow> spec_absence_token (CHR 0x0A # ''null'' @ [CHR 0x09])"
    by (simp add: spec_absence_token_def spec_strip_around_def spec_whitespace_def)
  from UnmarshalJSON_error_iff [OF h1, of "Inl :: string \<Rightarrow> string + int" 0 "New 7" "''tru''"]
       UnmarshalJSON_error_iff [OF h2, of "Inl :: string \<Rightarrow> string + int" 0 "New 7" "''tru''"]
  show ?thesis
    by (simp add: spec_absence_token_def spec_strip_around_def spec_whitespace_def
          UnmarshalJSON_def)
qed

text \<open>
  C5: a call of \<open>UnmarshalJSON\<close> on a nil receiver returns no error and changes
  nothing, whatever the input and whatever the decoder of \<open>T\<close> would do with it.
\<close>

theorem UnmarshalJSON_nil_receiver:
  "UnmarshalJSON unmarshalT z None data = (None, None)"
  by (simp add: UnmarshalJSON_def)

theorem UnmarshalJSON_nil_receiver_witness:
  "UnmarshalJSON
     (\<lambda>s. if s = ''true'' then Inr True else if s = ''false'' then Inr False else Inl ''invalid'')
     False None ''true'' = (None, None)"
  using UnmarshalJSON_nil_receiver
    [of "\<lambda>s. if s = ''true'' then Inr True else if s = ''false'' then Inr False else Inl ''invalid''"
        False "''true''"]
  by simp

text \<open>
  C6: \<open>MarshalJSON\<close> of an absent container is the four bytes \<open>null\<close> and nothing
  else; \<open>MarshalJSON\<close> of a present container is the result of \<open>T\<close>'s own serializer
  on the held value, bytes or error, as it is.
\<close>

theorem MarshalJSON_absent_null_present_delegates:
  "(IsEmpty c \<longrightarrow> MarshalJSON marshalT c = Inr ''null'') \<and>
   (\<not> IsEmpty c \<longrightarrow> MarshalJSON marshalT c = marshalT (fst (Get c))) \<and>
   length ''null'' = 4"
  by (simp add: MarshalJSON_def IsEmpty_def Get_def)

theorem MarshalJSON_absent_null_present_delegates_witness:
  "IsEmpty (Empty False) \<and>
   MarshalJSON (\<lambda>b. Inr (if b then ''true'' else ''false'') :: string + string) (Empty False)
     = Inr ''null'' \<and>
   \<not> IsEmpty (New False) \<and>
   MarshalJSON (\<lambda>b. Inr (if b then ''true'' else ''false'') :: string + string) (New False)
     = Inr ''false''"
  using
    MarshalJSON_absent_null_present_delegates
      [of "Empty False" "\<lambda>b. Inr (if b then ''true'' else ''false'') :: string + string"]
    MarshalJSON_absent_null_present_delegates
      [of "New False" "\<lambda>b. Inr (if b then ''true'' else ''false'') :: string + string"]
  by (simp add: IsEmpty_def Empty_def New_def Get_def)

text \<open>
  C7: \<open>ToPtr\<close> returns nil exactly when the container is absent, and then allocates
  nothing. When the container is present it returns an address \<open>p\<close> that was not
  allocated before the call and whose cell holds the container's value; every other
  cell \<open>q\<close> is as it was. The container is a struct value and \<open>T\<close> is taken with
  value semantics, so a write \<open>x\<close> through \<open>p\<close> changes the cell \<open>p\<close> and nothing
  else: a later \<open>ToPtr\<close> of the same container gives another fresh address, holding
  the container's value and not \<open>x\<close>. In the other direction, \<open>Set\<close> and \<open>Unset\<close> on
  the container leave the cell \<open>p\<close> with the value it was given.
\<close>

theorem ToPtr_nil_iff_absent_else_fresh_copy:
  "((fst (ToPtr c h) = None) = IsEmpty c) \<and>
   (IsEmpty c \<longrightarrow> ToPtr c h = (None, h)) \<and>
   (\<not> IsEmpty c \<longrightarrow>
      (\<exists>p h'. ToPtr c h = (Some p, h') \<and>
         load h p = None \<and>
         load h' p = Some (fst (Get c)) \<and>
         (q \<noteq> p \<longrightarrow> load h' q = load h q) \<and>
         (\<exists>h2. store h' p x = Some h2 \<and>
            load h2 p = Some x \<and>
            (q \<noteq> p \<longrightarrow> load h2 q = load h q) \<and>
            (\<exists>p2 h3. ToPtr c h2 = (Some p2, h3) \<and> p2 \<noteq> p \<and>
               load h3 p2 = Some (fst (Get c)) \<and> load h3 p = Some x)) \<and>
         (\<exists>p3 h4. ToPtr (Set w c) h' = (Some p3, h4) \<and> p3 \<noteq> p \<and>
            load h4 p3 = Some w \<and> load h4 p = Some (fst (Get c))) \<and>
         ToPtr (Unset z c) h' = (None, h')))"
proof (cases "hasValue c")
  case False
  then show ?thesis by (simp add: ToPtr_def IsEmpty_def)
next
  case True
  let ?p = "length h" and ?h' = "h @ [value c]"
  have 1: "ToPtr c h = (Some ?p, ?h')"
    using True by (simp add: ToPtr_def)
  have 2: "load h ?p = None" "load ?h' ?p = Some (fst (Get c))"
    by (simp_all add: load_def Get_def)
  have 3: "q \<noteq> ?p \<longrightarrow> load ?h' q = load h q"
    by (auto simp: load_def nth_append)
  let ?h2 = "h @ [x]"
  have 4: "store ?h' ?p x = Some ?h2" "load ?h2 ?p = Some x"
    by (simp_all add: store_def load_def)
  have 5: "q \<noteq> ?p \<longrightarrow> load ?h2 q = load h q"
    by (auto simp: load_def nth_append)
  have 6: "ToPtr c ?h2 = (Some (Suc ?p), ?h2 @ [value c])" "Suc ?p \<noteq> ?p"
    "load (?h2 @ [value c]) (Suc ?p) = Some (fst (Get c))"
    "load (?h2 @ [value c]) ?p = Some x"
    using True by (simp_all add: ToPtr_def load_def Get_def nth_append)
  have 7: "ToPtr (Set w c) ?h' = (Some (Suc ?p), ?h' @ [w])"
    "load (?h' @ [w]) (Suc ?p) = Some w"
    "load (?h' @ [w]) ?p = Some (fst (Get c))"
    by (simp_all add: ToPtr_def Set_def load_def Get_def nth_append)
  have 8: "ToPtr (Unset z c) ?h' = (None, ?h')"
    by (simp add: ToPtr_def Unset_def)
  from True have "\<not> IsEmpty c" "fst (ToPtr c h) \<noteq> None"
    by (simp_all add: IsEmpty_def 1)
  with 1 2 3 4 5 6 7 8 show ?thesis by blast
qed

theorem ToPtr_nil_iff_absent_else_fresh_copy_witness:
  "ToPtr (Empty (0::int)) [5] = (None, [5]) \<and>
   ToPtr (New (1::int)) [5] = (Some 1, [5, 1]) \<and>
   store [5, 1::int] 1 2 = Some [5, 2] \<and>
   Get (New (1::int)) = (1, True) \<and>
   ToPtr (New (1::int)) [5, 2] = (Some 2, [5, 2, 1])"
  using ToPtr_nil_iff_absent_else_fresh_copy [of "Empty (0::int)" "[5]" 0 2 3 0]
    ToPtr_nil_iff_absent_else_fresh_copy [of "New (1::int)" "[5]" 0 2 3 0]
  by (simp add: ToPtr_def Empty_def New_def store_def Get_def)

text \<open>
  C8: when \<open>UnmarshalJSON\<close> returns an error, the receiver's container is the one it
  was before the call, flag and slot alike.
\<close>

theorem UnmarshalJSON_error_keeps_container:
  assumes "UnmarshalJSON unmarshalT z rcv data = (rcv', Some e)"
  shows "rcv' = rcv"
proof (cases rcv)
  case None
  with assms show ?thesis by (simp add: UnmarshalJSON_def)
next
  case (Some c)
  with assms show ?thesis
    by (auto simp: UnmarshalJSON_Some split: if_splits sum.splits)
qed

theorem UnmarshalJSON_error_keeps_container_witness:
  "UnmarshalJSON (Inl :: string \<Rightarrow> string + int) 0 (Some (New 7)) ''seven''
     = (Some (New 7), Some ''seven'')"
proof -
  have run: "UnmarshalJSON (Inl :: string \<Rightarrow> string + int) 0 (Some (New 7)) ''seven''
      = (Some (New 7), Some ''seven'')"
    by (simp add: UnmarshalJSON_def)
  from UnmarshalJSON_error_keeps_container [OF run] run show ?thesis by simp
qed

text \<open>
  C9: a present container whose value the serializer of \<open>T\<close> writes as \<open>null\<close>
  (a nil pointer for \<open>T\<close> a pointer type) is serialized to the same four bytes as the
  empty container, and \<open>UnmarshalJSON\<close> of these bytes into any container leaves it
  absent.
\<close>

theorem present_null_encoding_reads_back_absent:
  assumes "\<not> IsEmpty c" and "marshalT (fst (Get c)) = Inr ''null''"
  shows "MarshalJSON marshalT c = Inr ''null'' \<and>
         MarshalJSON marshalT c = MarshalJSON marshalT (Empty z) \<and>
         (\<exists>c'. UnmarshalJSON unmarshalT z (Some r) ''null'' = (Some c', None) \<and> IsEmpty c')"
  using assms
  by (simp add: MarshalJSON_def IsEmpty_def Get_def Empty_def UnmarshalJSON_def Unset_def)

theorem present_null_encoding_reads_back_absent_witness:
  "\<not> IsEmpty (New (None :: bool option)) \<and>
   MarshalJSON
     (\<lambda>p. case p of None \<Rightarrow> Inr ''null''
          | Some b \<Rightarrow> (Inr (if b then ''true'' else ''false'') :: string + string))
     (New None) = Inr ''null'' \<and>
   UnmarshalJSON
     (\<lambda>s. if s = ''null'' then Inr None else if s = ''true'' then Inr (Some True)
          else if s = ''false'' then Inr (Some False) else (Inl ''invalid'' :: string + bool option))
     None (Some (New None)) ''null''
     = (Some (Empty None), None) \<and>
   IsEmpty (Empty (None :: bool option))"
proof -
  let ?enc = "\<lambda>p. case p of None \<Rightarrow> Inr ''null''
                 | Some b \<Rightarrow> (Inr (if b then ''true'' else ''false'') :: string + string)"
  let ?dec = "\<lambda>s. if s = ''null'' then Inr None else if s = ''true'' then Inr (Some True)
                   else if s = ''false'' then Inr (Some False)
                   else (Inl ''invalid'' :: string + bool option)"
  have h1: "\<not> IsEmpty (New (None :: bool option))"
    by (simp add: IsEmpty_def New_def)
  have h2: "?enc (fst (Get (New (None :: bool option)))) = Inr ''null''"
    by (simp add: Get_def New_def)
  from present_null_encoding_reads_back_absent
         [of "New None" ?enc None ?dec "New None", OF h1 h2] h1
  show ?thesis
    by (simp add: UnmarshalJSON_def Unset_def New_def Empty_def IsEmpty_def)
qed

text \<open>
  C10: after \<open>Unset\<close> the container is absent and its slot holds the zero value, and
  a second \<open>Unset\<close> changes nothing. On a container that is already absent, \<open>Unset\<close>
  leaves the results of \<open>IsEmpty\<close>, \<open>Or\<close>, \<open>ToPtr\<close> and \<open>MarshalJSON\<close> and the flag
  returned by \<open>Get\<close> as they were; on an absent container that the package has built,
  \<open>Unset\<close> returns the very same container, so \<open>Get\<close> returns the same pair too.
\<close>

theorem Unset_idempotent:
  "IsEmpty (Unset z c) \<and> Get (Unset z c) = (z, False) \<and>
   Unset z (Unset z c) = Unset z c \<and>
   (IsEmpty c \<longrightarrow>
      IsEmpty (Unset z c) = IsEmpty c \<and>
      snd (Get (Unset z c)) = snd (Get c) \<and>
      Or (Unset z c) d = Or c d \<and>
      ToPtr (Unset z c) h = ToPtr c h \<and>
      MarshalJSON marshalT (Unset z c) = MarshalJSON marshalT c) \<and>
   (IsEmpty c \<and> built unmarshalT z c \<longrightarrow> Unset z c = c \<and> Get (Unset z c) = Get c)"
proof -
  have "Unset z c = c" if "IsEmpty c" and "built unmarshalT z c"
  proof -
    from that(2) have "absent_is_zero z c" by (rule built_absent_is_zero)
    with that(1) show ?thesis by (simp add: absent_is_zero_def IsEmpty_def Unset_def)
  qed
  then show ?thesis
    by (auto simp: IsEmpty_def Get_def Unset_def Or_def ToPtr_def MarshalJSON_def)
qed

theorem Unset_idempotent_witness:
  "IsEmpty (FromPtr False None) \<and>
   Unset False (FromPtr False None) = FromPtr False None \<and>
   Get (Unset False (FromPtr False None)) = (False, False) \<and>
   MarshalJSON (\<lambda>b. Inr (if b then ''true'' else ''false'') :: string + string)
     (Unset False (FromPtr False None)) = Inr ''null'' \<and>
   Unset False (Unset False (New True)) = Unset False (New True)"
proof -
  let ?dec = "\<lambda>s. if s = ''true'' then Inr True else if s = ''false'' then Inr False
                   else (Inl ''invalid'' :: string + bool)"
  let ?enc = "\<lambda>b. Inr (if b then ''true'' else ''false'') :: string + string"
  have b: "built ?dec False (FromPtr False None)"
    by (rule built_FromPtr)
  have e: "IsEmpty (FromPtr False None)"
    by (simp add: IsEmpty_def FromPtr_def)
  from Unset_idempotent [of False "FromPtr False None" True "[]" ?enc ?dec]
       Unset_idempotent [of False "New True" True "[]" ?enc ?dec]
       b e
  show ?thesis by (simp add: MarshalJSON_def FromPtr_def Get_def Unset_def New_def)
qed

end
